theory Spec2Isabelle
  imports Main
begin

section \<open>Python values\<close>

text \<open>
  A Python \<open>str\<close> is a sequence of Unicode code points; it is modelled as the list of
  its code points, so that the teacher names of the crawled sites (mostly Cyrillic) are
  in the model. \<open>str\<close> turns a literal of the source into such a list.
\<close>

type_synonym pystr = "nat list"

definition str :: "string \<Rightarrow> pystr" where
  "str s = map of_char s"

text \<open>The values that the fields of a teacher record hold: \<open>None\<close> or a \<open>str\<close>.\<close>

datatype pyval = PyNone | PyStr pystr

section \<open>console\_proc.py\<close>

text \<open>
  \<^verbatim>\<open>_loading_chars = '-\\|/'\<close> is the four characters minus, backslash, bar, slash;
  \<^verbatim>\<open>_char_pos = 0\<close> is the initial value of the global.
\<close>

definition loading_chars :: pystr where
  "loading_chars = [45, 92, 124, 47]"

definition char_pos_init :: int where
  "char_pos_init = 0"

text \<open>
  Python's \<open>s[i]\<close>: a negative index counts from the end, an index out of range raises
  \<open>IndexError\<close> (here \<open>None\<close>).
\<close>

definition py_getitem :: "'a list \<Rightarrow> int \<Rightarrow> 'a option" where
  "py_getitem xs i =
     (if 0 \<le> i \<and> i < int (length xs) then Some (xs ! nat i)
      else if - int (length xs) \<le> i \<and> i < 0 then Some (xs ! nat (int (length xs) + i))
      else None)"

text \<open>
  \<open>print_loading\<close> takes the value of the global \<open>_char_pos\<close> and returns its new
  value with the text printed (\<open>"\r"\<close> ended by a space, then the character ended by a
  space), or \<open>None\<close> if the indexing raises.
\<close>

definition print_loading :: "int \<Rightarrow> (int \<times> pystr) option" where
  "print_loading char_pos =
     (let char_pos' = (char_pos + 1) mod int (length loading_chars)
      in case py_getitem loading_chars char_pos' of
           None \<Rightarrow> None
         | Some c \<Rightarrow> Some (char_pos', [13, 32] @ [c, 32]))"

text \<open>The value of \<open>_char_pos\<close> after \<open>n\<close> calls, \<open>None\<close> once a call has raised.\<close>

fun char_pos_after :: "nat \<Rightarrow> int option" where
  "char_pos_after 0 = Some char_pos_init"
| "char_pos_after (Suc n) =
     (case char_pos_after n of
        None \<Rightarrow> None
      | Some p \<Rightarrow> map_option fst (print_loading p))"

section \<open>scrap.py: constants and the name sanitizer\<close>

definition URL_SUBDS :: pystr where
  "URL_SUBDS = str ''https://schools.by/subdomains''"

definition URL_TEACHERS :: pystr where
  "URL_TEACHERS = str ''/teachers''"

definition MAX_RECONNECT_TRIES :: nat where
  "MAX_RECONNECT_TRIES = 3"

definition SUBFOLDER :: pystr where
  "SUBFOLDER = str ''img''"

text \<open>
  The keys of a Python dict are compared by equality, and an \<open>int\<close> is never equal to a
  \<open>str\<close>. \<open>TRANSLATION_TABLE\<close> is keyed by one-character strings:
  slash, less, greater, colon, double quote, backslash, bar, question mark, star.
\<close>

datatype pykey = KInt nat | KStr pystr

definition TRANSLATION_TABLE :: "(pykey \<times> pystr) list" where
  "TRANSLATION_TABLE =
     [(KStr [47], str ''_''), (KStr [60], str ''_''), (KStr [62], str ''_''),
      (KStr [58], str ''_''), (KStr [34], str ''_''), (KStr [92], str ''_''),
      (KStr [124], str ''_''), (KStr [63], str ''_''), (KStr [42], str ''_'')]"

text \<open>
  \<open>str.strip()\<close> removes the leading and trailing characters for which
  \<open>str.isspace\<close> holds: U+0009..U+000D, U+001C..U+0020, U+0085, U+00A0, U+1680,
  U+2000..U+200A, U+2028, U+2029, U+202F, U+205F, U+3000.
\<close>

definition isspace :: "nat \<Rightarrow> bool" where
  "isspace c \<longleftrightarrow>
     (9 \<le> c \<and> c \<le> 13) \<or> (28 \<le> c \<and> c \<le> 32) \<or> c = 133 \<or> c = 160 \<or> c = 5760 \<or>
     (8192 \<le> c \<and> c \<le> 8202) \<or> c = 8232 \<or> c = 8233 \<or> c = 8239 \<or> c = 8287 \<or> c = 12288"

definition strip :: "pystr \<Rightarrow> pystr" where
  "strip s = rev (dropWhile isspace (rev (dropWhile isspace s)))"

text \<open>
  \<open>str.translate(table)\<close> looks every character up in the table by its code point,
  an \<open>int\<close>: a character whose code point is not a key is kept, one that is a key is
  replaced by the string it maps to.
\<close>

definition translate :: "(pykey \<times> pystr) list \<Rightarrow> pystr \<Rightarrow> pystr" where
  "translate table s =
     concat (map (\<lambda>c. case map_of table (KInt c) of None \<Rightarrow> [c] | Some r \<Rightarrow> r) s)"

text \<open>
  The body of \<open>make_name_valid\<close> is the expression statement
  \<^verbatim>\<open>name.strip().translate(TRANSLATION_TABLE)\<close>: its value is computed and dropped, and
  the function ends without a \<open>return\<close>, so the call evaluates to \<open>None\<close>.
\<close>

definition make_name_valid :: "pystr \<Rightarrow> pyval" where
  "make_name_valid name = (let dropped = translate TRANSLATION_TABLE (strip name) in PyNone)"

text \<open>The forbidden characters of the specification, for the statement of the claim.\<close>

definition forbidden :: "nat set" where
  "forbidden = {47, 60, 62, 58, 34, 92, 124, 63, 42}"

section \<open>scrap.py: requests and their failures\<close>

text \<open>
  What a request can raise, by the classes that the handlers of the source name. Each
  constructor stands for an exception that the \<open>except\<close> clause naming it catches
  (\<open>ServerTimeoutError\<close> is listed with the connection errors in both functions, so it
  is caught there); \<open>OtherError\<close> is any exception that no clause of the source names.
\<close>

datatype exn =
  ServerConnectionError | ClientError | ServerTimeoutError | AsyncioTimeoutError
  | UnicodeError | OtherError

datatype 'a outcome = Returns 'a | Raises exn

text \<open>
  The shared session is a function from the URL and the number of requests the caller has
  made before to the outcome of the request: \<open>session url k\<close> is what the
  \<open>async with session.get(url)\<close> block of attempt \<open>k\<close> ends with.
\<close>

type_synonym 'a session = "pystr \<Rightarrow> nat \<Rightarrow> 'a outcome"

text \<open>How a retry loop is left: by \<open>break\<close>, by \<open>return\<close>, or by an exception.\<close>

datatype 'a loop_exit = Broke 'a | Returned | Raised exn

section \<open>scrap.py: the image fetcher\<close>

datatype content = Text pystr | Bytes "nat list"

type_synonym files = "pystr \<rightharpoonup> content"

text \<open>\<open>os.path.join\<close> of two components, as \<open>posixpath\<close> computes it.\<close>

definition os_path_join :: "pystr \<Rightarrow> pystr \<Rightarrow> pystr" where
  "os_path_join a b =
     (if take 1 b = [47] then b
      else if a = [] \<or> drop (length a - 1) a = [47] then a @ b
      else a @ [47] @ b)"

text \<open>
  The \<open>while\<close> loop of \<open>download_and_save_image\<close>, from the value of \<open>tries\<close>
  on. The result carries the final value of \<open>tries\<close>, which the \<open>finally\<close> clause
  increments on every attempt: it is the number of requests made.
\<close>

function image_loop :: "(nat \<Rightarrow> nat list outcome) \<Rightarrow> nat \<Rightarrow> nat list loop_exit \<times> nat" where
  "image_loop get tries =
     (if tries < MAX_RECONNECT_TRIES then
        (case get tries of
           Raises err \<Rightarrow>
             (if err \<in> {ServerConnectionError, ClientError, ServerTimeoutError}
              then image_loop get (tries + 1)
              else if err = AsyncioTimeoutError then image_loop get (tries + 1)
              else if err = UnicodeError then (Returned, tries + 1)
              else (Raised err, tries + 1))
         | Returns raw \<Rightarrow> (Broke raw, tries + 1))
      else (Returned, tries))"
  by pat_completeness auto
termination
  by (relation "measure (\<lambda>(get, tries). MAX_RECONNECT_TRIES - tries)") auto

text \<open>
  \<open>download_and_save_image\<close> returns the files after the call (or the exception that
  escapes) and the number of requests made.
\<close>

definition download_and_save_image ::
  "pystr \<Rightarrow> pystr \<Rightarrow> nat list session \<Rightarrow> files \<Rightarrow> (exn + files) \<times> nat" where
  "download_and_save_image filename img_url session fs =
     (case image_loop (session img_url) 0 of
        (Broke raw, n) \<Rightarrow>
          (let path_to_file = os_path_join SUBFOLDER (filename @ str ''.jpg'')
           in (Inr (fs(path_to_file \<mapsto> Bytes raw)), n))
      | (Returned, n) \<Rightarrow> (Inr fs, n)
      | (Raised err, n) \<Rightarrow> (Inl err, n))"

section \<open>scrap.py: the teacher page parser\<close>

text \<open>
  The HTML library is outside the repository. A teacher page is represented by what the
  selectors of the source return on it: the list of its \<open>div.sch_ptbox_item\<close> elements
  in document order, each with the text of its first \<open>a.user_type_3\<close> element (if it
  has one) and its first \<open>a.photo>img\<close> element (if it has one) with the value of the
  \<open>src\<close> attribute of that element (if it has one).
\<close>

record card =
  user_type_3 :: "pystr option"
  photo_img :: "pystr option option"

text \<open>A dict with string keys, in insertion order.\<close>

type_synonym pydict = "(pystr \<times> pyval) list"

fun setitem :: "pydict \<Rightarrow> pystr \<Rightarrow> pyval \<Rightarrow> pydict" where
  "setitem [] k v = [(k, v)]"
| "setitem ((k', v') # d) k v = (if k' = k then (k, v) # d else (k', v') # setitem d k v)"

definition dict_get :: "pydict \<Rightarrow> pystr \<Rightarrow> pyval" where
  "dict_get d k = (case map_of d k of None \<Rightarrow> PyNone | Some v \<Rightarrow> v)"

text \<open>\<open>img.get('src')\<close> is \<open>None\<close> when the element has no such attribute.\<close>

definition attr_get :: "pystr option \<Rightarrow> pyval" where
  "attr_get a = (case a of None \<Rightarrow> PyNone | Some v \<Rightarrow> PyStr v)"

text \<open>The body of the loop over the cards, up to the test \<open>if teacher\<close>.\<close>

definition parse_card :: "card \<Rightarrow> pydict" where
  "parse_card c =
     (let teacher = [];
          teacher = (case user_type_3 c of
                       Some text \<Rightarrow> setitem teacher (str ''name'') (make_name_valid text)
                     | None \<Rightarrow> teacher);
          teacher = (case photo_img c of
                       Some src \<Rightarrow> setitem teacher (str ''img_url'') (attr_get src)
                     | None \<Rightarrow> teacher)
      in teacher)"

fun parse_cards :: "card list \<Rightarrow> pydict list \<Rightarrow> pydict list" where
  "parse_cards [] teachers = teachers"
| "parse_cards (c # teachers_cards) teachers =
     (let teacher = parse_card c
      in parse_cards teachers_cards (if teacher \<noteq> [] then teachers @ [teacher] else teachers))"

text \<open>The \<open>while\<close> loop of \<open>parse_teachers_page\<close>, as \<open>image_loop\<close> above.\<close>

function page_loop :: "(nat \<Rightarrow> card list outcome) \<Rightarrow> nat \<Rightarrow> card list loop_exit \<times> nat" where
  "page_loop get tries =
     (if tries < MAX_RECONNECT_TRIES then
        (case get tries of
           Raises err \<Rightarrow>
             (if err \<in> {ServerConnectionError, ClientError, ServerTimeoutError}
              then page_loop get (tries + 1)
              else if err = UnicodeError then (Returned, tries + 1)
              else (Raised err, tries + 1))
         | Returns html \<Rightarrow> (Broke html, tries + 1))
      else (Returned, tries))"
  by pat_completeness auto
termination
  by (relation "measure (\<lambda>(get, tries). MAX_RECONNECT_TRIES - tries)") auto

definition parse_teachers_page ::
  "pystr \<Rightarrow> card list session \<Rightarrow> (exn + pydict list) \<times> nat" where
  "parse_teachers_page page_url session =
     (case page_loop (session page_url) 0 of
        (Broke html, n) \<Rightarrow> (Inr (parse_cards html []), n)
      | (Returned, n) \<Rightarrow> (Inr [], n)
      | (Raised err, n) \<Rightarrow> (Inl err, n))"

section \<open>scrap.py: the orchestrator\<close>

text \<open>
  \<open>json.dumps(teachers, ensure_ascii=False)\<close> on a list of dicts with string keys and
  values that are \<open>None\<close> or strings: the separators are \<open>", "\<close> and \<open>": "\<close>;
  in a string, the double quote, the backslash and the characters below U+0020 are
  escaped, and every other character is written as it is.
\<close>

definition hex_digit :: "nat \<Rightarrow> nat" where
  "hex_digit d = (if d < 10 then 48 + d else 87 + d)"

definition json_escape :: "nat \<Rightarrow> pystr" where
  "json_escape c =
     (if c = 34 then [92, 34]
      else if c = 92 then [92, 92]
      else if c = 10 then [92, 110]
      else if c = 13 then [92, 114]
      else if c = 9 then [92, 116]
      else if c = 8 then [92, 98]
      else if c = 12 then [92, 102]
      else if c < 32 then [92, 117, 48, 48, hex_digit (c div 16), hex_digit (c mod 16)]
      else [c])"

definition json_string :: "pystr \<Rightarrow> pystr" where
  "json_string s = [34] @ concat (map json_escape s) @ [34]"

fun join :: "pystr \<Rightarrow> pystr list \<Rightarrow> pystr" where
  "join sep [] = []"
| "join sep [x] = x"
| "join sep (x # y # ys) = x @ sep @ join sep (y # ys)"

definition json_value :: "pyval \<Rightarrow> pystr" where
  "json_value v = (case v of PyNone \<Rightarrow> str ''null'' | PyStr s \<Rightarrow> json_string s)"

definition json_dict :: "pydict \<Rightarrow> pystr" where
  "json_dict d =
     str ''{'' @ join (str '', '') (map (\<lambda>(k, v). json_string k @ str '': '' @ json_value v) d)
     @ str ''}''"

definition json_dumps :: "pydict list \<Rightarrow> pystr" where
  "json_dumps teachers = str ''['' @ join (str '', '') (map json_dict teachers) @ str '']''"

text \<open>
  The directory page is represented by what the selectors return on it: the list of its
  \<open>div.schlist_city_box\<close> elements, each the list of its \<open>li > a\<close> elements, each
  the value of its \<open>href\<close> attribute if it has one. \<open>a.get("href", "")\<close> is the empty
  string for an anchor without the attribute.
\<close>

type_synonym anchor = "pystr option"

definition href :: "anchor \<Rightarrow> pystr" where
  "href a = (case a of None \<Rightarrow> [] | Some v \<Rightarrow> v)"

fun extend_subdomains :: "anchor list list \<Rightarrow> pystr list \<Rightarrow> pystr list" where
  "extend_subdomains [] subdomains = subdomains"
| "extend_subdomains (city_box # divs_city_box) subdomains =
     extend_subdomains divs_city_box (subdomains @ map href city_box)"

text \<open>The text of \<open>subdomains.txt\<close> after the writes of the loop, from the text so far.\<close>

fun write_subdomains :: "pystr list \<Rightarrow> pystr \<Rightarrow> pystr" where
  "write_subdomains [] text = text"
| "write_subdomains (subdomain # subdomains) text =
     write_subdomains subdomains (text @ (subdomain @ [10]))"

text \<open>
  The inner loop over the records of one page: an image task is created for a record
  unless \<open>name is None or img_url is None\<close> (a field is \<open>None\<close> or a string, and
  \<open>dict.get\<close> gives \<open>None\<close> for a missing key).
\<close>

fun image_tasks :: "pydict list \<Rightarrow> (pystr \<times> pystr) list" where
  "image_tasks [] = []"
| "image_tasks (teacher # res) =
     (case (dict_get teacher (str ''name''), dict_get teacher (str ''img_url'')) of
        (PyStr name, PyStr img_url) \<Rightarrow> (name, img_url) # image_tasks res
      | _ \<Rightarrow> image_tasks res)"

text \<open>
  What the coroutine \<open>main\<close> does, in its program order: its own request, the files it
  has written, the tasks it creates and the tasks it has awaited.
\<close>

datatype task = Parse pystr | Download pystr pystr

datatype event = Requested pystr | Written pystr | Created task | Awaited task

text \<open>
  The loop \<open>for task in tasks\<close>: every task is given with its URL and with what awaiting
  it yields. An exception of a task is raised again by the \<open>await\<close> and leaves the loop.
\<close>

fun await_tasks ::
  "(pystr \<times> (exn + pydict list)) list \<Rightarrow> pydict list \<Rightarrow> (pystr \<times> pystr) list \<Rightarrow> event list
   \<Rightarrow> (exn + pydict list \<times> (pystr \<times> pystr) list) \<times> event list" where
  "await_tasks [] teachers img_tasks evs = (Inr (teachers, img_tasks), evs)"
| "await_tasks ((url, task) # tasks) teachers img_tasks evs =
     (case task of
        Inl err \<Rightarrow> (Inl err, evs)
      | Inr res \<Rightarrow>
          (if res \<noteq> [] then
             await_tasks tasks (teachers @ res) (img_tasks @ image_tasks res)
               (evs @ [Awaited (Parse url)]
                  @ map (\<lambda>(name, img_url). Created (Download name img_url)) (image_tasks res))
           else await_tasks tasks teachers img_tasks (evs @ [Awaited (Parse url)])))"

text \<open>
  The loop \<open>for img_task in img_tasks\<close>. The \<open>j\<close>-th image task sees the session
  through \<open>sessions j\<close>. The files an image task writes end in \<open>.jpg\<close>, so they are
  never one of the two files that \<open>main\<close> writes; the model applies the writes of the
  image tasks in the order in which the tasks are awaited.
\<close>

fun await_img_tasks ::
  "(pystr \<times> pystr) list \<Rightarrow> nat \<Rightarrow> (nat \<Rightarrow> nat list session) \<Rightarrow> files \<Rightarrow> event list
   \<Rightarrow> exn option \<times> files \<times> event list" where
  "await_img_tasks [] j sessions fs evs = (None, fs, evs)"
| "await_img_tasks ((name, img_url) # img_tasks) j sessions fs evs =
     (case fst (download_and_save_image name img_url (sessions j) fs) of
        Inl err \<Rightarrow> (Some err, fs, evs)
      | Inr fs' \<Rightarrow>
          await_img_tasks img_tasks (j + 1) sessions fs' (evs @ [Awaited (Download name img_url)]))"

text \<open>
  The network as a run sees it: the outcome of the one request of the directory page, the
  session as the \<open>i\<close>-th page task sees it, and the session as the \<open>j\<close>-th image task
  sees it.
\<close>

record world =
  subds_response :: "anchor list list outcome"
  teachers_session :: "nat \<Rightarrow> card list session"
  images_session :: "nat \<Rightarrow> nat list session"

text \<open>
  A run of \<open>main\<close> from the files \<open>fs\<close>: the exception that escapes it (if any), the
  files at its end and its events. Opening and writing a file are taken to succeed.
\<close>

record run =
  raised :: "exn option"
  files :: files
  events :: "event list"

definition main :: "world \<Rightarrow> files \<Rightarrow> run" where
  "main w fs =
     (case subds_response w of
        Raises err \<Rightarrow> \<lparr>raised = Some err, files = fs, events = [Requested URL_SUBDS]\<rparr>
      | Returns divs_city_box \<Rightarrow>
          (let subdomains = extend_subdomains divs_city_box [];
               fs = fs(str ''subdomains.txt'' \<mapsto> Text (write_subdomains subdomains []));
               evs = [Requested URL_SUBDS, Written (str ''subdomains.txt'')];
               urls = map (\<lambda>subdomain. subdomain @ URL_TEACHERS) subdomains;
               tasks = map (\<lambda>(i, url). (url, fst (parse_teachers_page url (teachers_session w i))))
                         (enumerate 0 urls);
               evs = evs @ map (\<lambda>url. Created (Parse url)) urls
           in case await_tasks tasks [] [] evs of
                (Inl err, evs) \<Rightarrow> \<lparr>raised = Some err, files = fs, events = evs\<rparr>
              | (Inr (teachers, img_tasks), evs) \<Rightarrow>
                  (let fs = fs(str ''teachers.json'' \<mapsto> Text (json_dumps teachers));
                       evs = evs @ [Written (str ''teachers.json'')]
                   in case await_img_tasks img_tasks 0 (images_session w) fs evs of
                        (err, fs, evs) \<Rightarrow> \<lparr>raised = err, files = fs, events = evs\<rparr>)))"

text \<open>
  The statements of \<open>main\<close> from \<open>teachers = []\<close> to its end, for any list of page
  tasks (each with its URL and with what awaiting it yields), the sessions of the image
  tasks, the files and the events so far. They are the last \<open>case\<close> of \<open>main\<close> above,
  word for word; \<open>main_teachers_stage\<close> below shows that \<open>main\<close> runs them on its page
  tasks.
\<close>

definition teachers_stage ::
  "(pystr \<times> (exn + pydict list)) list \<Rightarrow> (nat \<Rightarrow> nat list session) \<Rightarrow> files \<Rightarrow> event list
   \<Rightarrow> run" where
  "teachers_stage tasks sessions fs evs =
     (case await_tasks tasks [] [] evs of
        (Inl err, evs) \<Rightarrow> \<lparr>raised = Some err, files = fs, events = evs\<rparr>
      | (Inr (teachers, img_tasks), evs) \<Rightarrow>
          (let fs = fs(str ''teachers.json'' \<mapsto> Text (json_dumps teachers));
               evs = evs @ [Written (str ''teachers.json'')]
           in case await_img_tasks img_tasks 0 sessions fs evs of
                (err, fs, evs) \<Rightarrow> \<lparr>raised = err, files = fs, events = evs\<rparr>))"

section \<open>Notions of the specification\<close>

text \<open>The image tasks that a sequence of events creates, and those it awaits, in order.\<close>

fun created_downloads :: "event list \<Rightarrow> (pystr \<times> pystr) list" where
  "created_downloads [] = []"
| "created_downloads (Created (Download name img_url) # evs) =
     (name, img_url) # created_downloads evs"
| "created_downloads (ev # evs) = created_downloads evs"

fun awaited_downloads :: "event list \<Rightarrow> (pystr \<times> pystr) list" where
  "awaited_downloads [] = []"
| "awaited_downloads (Awaited (Download name img_url) # evs) =
     (name, img_url) # awaited_downloads evs"
| "awaited_downloads (ev # evs) = awaited_downloads evs"

text \<open>
  The name and the image URL of a record that has both, and the records of the page tasks
  that did not raise, in the order of the tasks.
\<close>

definition both_fields :: "pydict \<Rightarrow> (pystr \<times> pystr) list" where
  "both_fields teacher =
     (case (map_of teacher (str ''name''), map_of teacher (str ''img_url'')) of
        (Some (PyStr name), Some (PyStr img_url)) \<Rightarrow> [(name, img_url)]
      | _ \<Rightarrow> [])"


text \<open>
  The events of the loop over the page tasks, which ends at the first task that raised,
  and that exception if there is one.
\<close>

fun collecting_events :: "(pystr \<times> (exn + pydict list)) list \<Rightarrow> event list" where
  "collecting_events [] = []"
| "collecting_events ((url, Inr res) # tasks) =
     Awaited (Parse url)
       # map (\<lambda>(name, img_url). Created (Download name img_url)) (concat (map both_fields res))
       @ collecting_events tasks"
| "collecting_events ((url, Inl err) # tasks) = []"


text \<open>The events of the loop over the image tasks, which ends at the first task that raised.\<close>

fun awaiting_events ::
  "(pystr \<times> pystr) list \<Rightarrow> nat \<Rightarrow> (nat \<Rightarrow> nat list session) \<Rightarrow> files \<Rightarrow> event list" where
  "awaiting_events [] j sessions fs = []"
| "awaiting_events ((name, img_url) # img_tasks) j sessions fs =
     (case fst (download_and_save_image name img_url (sessions j) fs) of
        Inl err \<Rightarrow> []
      | Inr fs' \<Rightarrow> Awaited (Download name img_url) # awaiting_events img_tasks (j + 1) sessions fs')"

text \<open>
  The newline-terminated lines of a text, each without its newline; \<open>line\<close> is the part
  of the current line read so far.
\<close>

fun lines_of :: "pystr \<Rightarrow> pystr \<Rightarrow> pystr list" where
  "lines_of [] line = []"
| "lines_of (c # text) line =
     (if c = 10 then line # lines_of text [] else lines_of text (line @ [c]))"


definition jane_doe_world :: world where
  "jane_doe_world =
     \<lparr>subds_response = Returns [[Some (str ''https://a.schools.by'')]],
      teachers_session = (\<lambda>i url k. Returns
         [\<lparr>user_type_3 = Some (str ''Jane Doe''),
           photo_img = Some (Some (str ''https://a.schools.by/x.jpg''))\<rparr>]),
      images_session = (\<lambda>j url k. Returns [255, 216, 255])\<rparr>"

definition newline_href_world :: world where
  "newline_href_world =
     \<lparr>subds_response = Returns [[Some [97, 10, 98]]],
      teachers_session = (\<lambda>i url k. Returns []),
      images_session = (\<lambda>j url k. Returns [])\<rparr>"




section \<open>The spinner\<close>

lemma print_loading_in_range:
  "\<exists>c. print_loading p = Some ((p + 1) mod 4, [13, 32, c, 32]) \<and>
       py_getitem loading_chars ((p + 1) mod 4) = Some c"
proof -
  have r: "0 \<le> (p + 1) mod 4" "(p + 1) mod 4 < 4"
    by simp_all
  then show ?thesis
    by (simp add: print_loading_def py_getitem_def loading_chars_def Let_def not_less)
qed

text \<open>
  C10. The spinner position is 0 at the start and, after any number of calls of
  \<open>print_loading\<close>, a value with \<open>0 \<le> _char_pos < 4\<close>; no call raises, every call
  moves the position by one modulo 4, and the position it indexes the four-character
  string with is in bounds.
\<close>

theorem char_pos_in_bounds:
  "char_pos_init = 0 \<and> length loading_chars = 4 \<and>
   (\<exists>p. char_pos_after n = Some p \<and> 0 \<le> p \<and> p < 4 \<and>
        nat p < length loading_chars \<and>
        char_pos_after (Suc n) = Some ((p + 1) mod 4) \<and>
        (\<exists>c. print_loading p = Some ((p + 1) mod 4, [13, 32, c, 32]) \<and>
             c = loading_chars ! nat ((p + 1) mod 4)))"
proof (induction n)
  case 0
  show ?case
    by (simp add: char_pos_init_def loading_chars_def print_loading_def py_getitem_def)
next
  case (Suc n)
  then obtain p where p: "char_pos_after (Suc n) = Some ((p + 1) mod 4)"
    by blast
  let ?q = "(p + 1) mod 4"
  have r: "0 \<le> ?q" "?q < 4"
    by simp_all
  obtain c where c: "print_loading ?q = Some ((?q + 1) mod 4, [13, 32, c, 32])"
    "py_getitem loading_chars ((?q + 1) mod 4) = Some c"
    using print_loading_in_range [of ?q] by blast
  have r': "0 \<le> (?q + 1) mod 4" "(?q + 1) mod 4 < 4"
    by simp_all
  from c(2) r' have c': "c = loading_chars ! nat ((?q + 1) mod 4)"
    by (simp add: py_getitem_def loading_chars_def)
  have "char_pos_after (Suc (Suc n)) = Some ((?q + 1) mod 4)"
    using p c(1) by simp
  with p r c(1) c' show ?case
    by (simp add: char_pos_init_def loading_chars_def)
qed

section \<open>The name sanitizer and the records of a page\<close>

lemma make_name_valid_None: "make_name_valid name = PyNone"
  by (simp add: make_name_valid_def)

lemma keys_neq: "str ''name'' \<noteq> str ''img_url''"
  by (simp add: str_def)

lemma parse_card_eq:
  "parse_card c =
     (case user_type_3 c of Some t \<Rightarrow> [(str ''name'', PyNone)] | None \<Rightarrow> []) @
     (case photo_img c of Some src \<Rightarrow> [(str ''img_url'', attr_get src)] | None \<Rightarrow> [])"
  using keys_neq by (simp add: parse_card_def make_name_valid_def split: option.splits)

lemma map_of_parse_card:
  "map_of (parse_card c) (str ''name'') = (case user_type_3 c of Some t \<Rightarrow> Some PyNone | None \<Rightarrow> None)"
  using keys_neq by (simp add: parse_card_eq split: option.splits)

lemma dict_get_parse_card: "dict_get (parse_card c) (str ''name'') = PyNone"
  by (simp add: dict_get_def map_of_parse_card split: option.splits)

lemma parse_cards_acc: "parse_cards cs acc = acc @ filter (\<lambda>t. t \<noteq> []) (map parse_card cs)"
  by (induction cs arbitrary: acc) (simp_all add: Let_def)

lemma image_tasks_none: "(\<forall>t \<in> set ts. dict_get t (str ''name'') = PyNone) \<Longrightarrow> image_tasks ts = []"
  by (induction ts) simp_all

lemma parse_cards_names: "t \<in> set (parse_cards cs []) \<Longrightarrow> \<exists>c. t = parse_card c"
  by (auto simp: parse_cards_acc)

lemma parse_teachers_page_cases:
  "parse_teachers_page url session = (Inr teachers, n) \<Longrightarrow> teachers = [] \<or> (\<exists>cs. teachers = parse_cards cs [])"
  by (auto simp: parse_teachers_page_def split: prod.splits loop_exit.splits)

lemma parse_teachers_page_names:
  assumes "parse_teachers_page url session = (Inr teachers, n)" "t \<in> set teachers"
  shows "\<exists>c. t = parse_card c"
  using parse_teachers_page_cases [OF assms(1)] assms(2) parse_cards_names by auto

lemma parse_teachers_page_no_images:
  assumes "parse_teachers_page url session = (Inr teachers, n)"
  shows "image_tasks teachers = []"
proof (rule image_tasks_none, rule ballI)
  fix t assume "t \<in> set teachers"
  then obtain c where "t = parse_card c"
    using parse_teachers_page_names [OF assms] by blast
  then show "dict_get t (str ''name'') = PyNone"
    by (simp add: dict_get_parse_card)
qed

text \<open>
  C1. The claim is that \<open>make_name_valid\<close> returns a string without forbidden
  characters and without whitespace at its ends. On the name \<open>" a/b"\<close> the function
  returns \<open>None\<close>, not a string; the value its body computes and drops is \<open>"a/b"\<close>,
  which still holds the forbidden slash, since the table is keyed by strings and
  \<open>str.translate\<close> looks code points up.
\<close>

theorem make_name_valid_slash:
  "make_name_valid [32, 97, 47, 98] = PyNone \<and>
   translate TRANSLATION_TABLE (strip [32, 97, 47, 98]) = [97, 47, 98] \<and> 47 \<in> forbidden"
  by (simp add: make_name_valid_def translate_def TRANSLATION_TABLE_def strip_def isspace_def
      forbidden_def)

text \<open>
  C2. \<open>make_name_valid\<close> returns \<open>None\<close> on every string. So the record of a card
  with a name element has the value \<open>None\<close> under the key \<open>name\<close>; every record that
  \<open>parse_teachers_page\<close> returns with the key \<open>name\<close> has \<open>None\<close> there and gets
  no image task from the loop of the orchestrator, and no record of the page does.
\<close>

theorem sanitizer_returns_none:
  "make_name_valid name = PyNone \<and>
   (user_type_3 c = Some text \<longrightarrow> map_of (parse_card c) (str ''name'') = Some PyNone) \<and>
   (parse_teachers_page page_url session = (Inr teachers, n) \<longrightarrow>
      (\<forall>teacher \<in> set teachers. \<forall>v. map_of teacher (str ''name'') = Some v \<longrightarrow>
           v = PyNone \<and> image_tasks [teacher] = []) \<and>
      image_tasks teachers = [])"
proof (intro conjI impI ballI allI)
  show "make_name_valid name = PyNone"
    by (rule make_name_valid_None)
next
  assume "user_type_3 c = Some text"
  then show "map_of (parse_card c) (str ''name'') = Some PyNone"
    by (simp add: map_of_parse_card)
next
  fix teacher v
  assume p: "parse_teachers_page page_url session = (Inr teachers, n)"
    and t: "teacher \<in> set teachers" and v: "map_of teacher (str ''name'') = Some v"
  obtain c' where c': "teacher = parse_card c'"
    using parse_teachers_page_names [OF p t] by blast
  with v show "v = PyNone"
    by (simp add: map_of_parse_card split: option.splits)
  from c' show "image_tasks [teacher] = []"
    by (simp add: dict_get_parse_card)
next
  assume "parse_teachers_page page_url session = (Inr teachers, n)"
  then show "image_tasks teachers = []"
    by (rule parse_teachers_page_no_images)
qed

text \<open>A page with one card that has a name and a photo.\<close>

theorem sanitizer_returns_none_witness:
  "make_name_valid (str ''Jane Doe'') = PyNone \<and>
   parse_teachers_page (str ''https://a.schools.by/teachers'')
     (\<lambda>url k. Returns [\<lparr>user_type_3 = Some (str ''Jane Doe''),
                         photo_img = Some (Some (str ''https://a.schools.by/x.jpg''))\<rparr>])
     = (Inr [[(str ''name'', PyNone), (str ''img_url'', PyStr (str ''https://a.schools.by/x.jpg''))]], 1) \<and>
   map_of [(str ''name'', PyNone), (str ''img_url'', PyStr (str ''https://a.schools.by/x.jpg''))]
     (str ''name'') = Some PyNone \<and>
   image_tasks [[(str ''name'', PyNone), (str ''img_url'', PyStr (str ''https://a.schools.by/x.jpg''))]] = []"
  using sanitizer_returns_none [of "str ''Jane Doe''"
      "\<lparr>user_type_3 = Some (str ''Jane Doe''), photo_img = Some (Some (str ''https://a.schools.by/x.jpg''))\<rparr>"
      "str ''Jane Doe''" "str ''https://a.schools.by/teachers''"
      "\<lambda>url k. Returns [\<lparr>user_type_3 = Some (str ''Jane Doe''),
                         photo_img = Some (Some (str ''https://a.schools.by/x.jpg''))\<rparr>]"
      "[[(str ''name'', PyNone), (str ''img_url'', PyStr (str ''https://a.schools.by/x.jpg''))]]" 1]
    keys_neq
  by (simp add: parse_teachers_page_def MAX_RECONNECT_TRIES_def parse_card_eq attr_get_def)

text \<open>
  C3. The claim is that the records carry the name of the name element. On a page of
  three cards (a name only; neither element; a name and a photo) the parser drops the
  second card and keeps the order, and the records of the first and the third card
  have \<open>None\<close> under \<open>name\<close> where the claim has the names.
\<close>

theorem parse_teachers_page_name_lost:
  "parse_teachers_page url
     (\<lambda>u k. Returns [\<lparr>user_type_3 = Some (str ''Jane Doe''), photo_img = None\<rparr>,
                      \<lparr>user_type_3 = None, photo_img = None\<rparr>,
                      \<lparr>user_type_3 = Some (str ''John Roe''), photo_img = Some (Some (str ''x.jpg''))\<rparr>])
   = (Inr [[(str ''name'', PyNone)],
           [(str ''name'', PyNone), (str ''img_url'', PyStr (str ''x.jpg''))]], 1)"
  by (simp add: parse_teachers_page_def MAX_RECONNECT_TRIES_def parse_card_eq attr_get_def)

section \<open>The retry loops\<close>

text \<open>
  C4. The claim is that a fetch that fails twice with a transient transport error and
  then succeeds returns the result, and that no exception escapes. When the two
  failures are \<open>asyncio.TimeoutError\<close>, the image fetcher (which has a handler for it)
  retries and writes the file at the third attempt, but the page parser (which has
  none) lets the exception of the first attempt escape.
\<close>

theorem page_fetch_timeout_escapes:
  "parse_teachers_page url (\<lambda>u k. if k < 2 then Raises AsyncioTimeoutError else Returns cards)
     = (Inl AsyncioTimeoutError, 1) \<and>
   download_and_save_image filename img_url
     (\<lambda>u k. if k < 2 then Raises AsyncioTimeoutError else Returns raw) fs
     = (Inr (fs(os_path_join SUBFOLDER (filename @ str ''.jpg'') \<mapsto> Bytes raw)), 3)"
  by (simp add: parse_teachers_page_def download_and_save_image_def MAX_RECONNECT_TRIES_def)

lemma page_loop_retries:
  "k \<le> MAX_RECONNECT_TRIES \<Longrightarrow> tries \<le> k \<Longrightarrow>
   (\<forall>i. tries \<le> i \<and> i < k \<longrightarrow>
      (\<exists>e. get i = Raises e \<and> e \<in> {ServerConnectionError, ClientError, ServerTimeoutError})) \<Longrightarrow>
   page_loop get tries = page_loop get k"
proof (induction "k - tries" arbitrary: tries)
  case 0
  then show ?case by simp
next
  case (Suc d)
  then have lt: "tries < k" and d: "d = k - (tries + 1)"
    by simp_all
  from Suc.prems lt obtain e where e: "get tries = Raises e"
    "e \<in> {ServerConnectionError, ClientError, ServerTimeoutError}"
    by blast
  have "page_loop get (tries + 1) = page_loop get k"
    using Suc.hyps(1) [OF d] Suc.prems lt by simp
  moreover have "page_loop get tries = page_loop get (tries + 1)"
    using e lt Suc.prems(1) by auto
  ultimately show ?case by simp
qed

lemma image_loop_retries:
  "k \<le> MAX_RECONNECT_TRIES \<Longrightarrow> tries \<le> k \<Longrightarrow>
   (\<forall>i. tries \<le> i \<and> i < k \<longrightarrow>
      (\<exists>e. get i = Raises e \<and>
           e \<in> {ServerConnectionError, ClientError, ServerTimeoutError, AsyncioTimeoutError})) \<Longrightarrow>
   image_loop get tries = image_loop get k"
proof (induction "k - tries" arbitrary: tries)
  case 0
  then show ?case by simp
next
  case (Suc d)
  then have lt: "tries < k" and d: "d = k - (tries + 1)"
    by simp_all
  from Suc.prems lt obtain e where e: "get tries = Raises e"
    "e \<in> {ServerConnectionError, ClientError, ServerTimeoutError, AsyncioTimeoutError}"
    by blast
  have "image_loop get (tries + 1) = image_loop get k"
    using Suc.hyps(1) [OF d] Suc.prems lt by simp
  moreover have "image_loop get tries = image_loop get (tries + 1)"
    using e lt Suc.prems(1) by auto
  ultimately show ?case by simp
qed

text \<open>
  C8. A \<open>UnicodeError\<close> at attempt \<open>k\<close> (counted from 0, after \<open>k\<close> attempts that
  failed with errors the loop retries) ends the operation at once: the parser returns
  the empty list and the fetcher returns with the files unchanged, and both have made
  \<open>k + 1\<close> requests, so no further attempt is made.
\<close>

theorem decoding_failure_aborts:
  assumes "k < MAX_RECONNECT_TRIES"
    and "\<forall>i<k. \<exists>e. pages page_url i = Raises e \<and>
            e \<in> {ServerConnectionError, ClientError, ServerTimeoutError}"
    and "pages page_url k = Raises UnicodeError"
    and "\<forall>i<k. \<exists>e. images img_url i = Raises e \<and>
            e \<in> {ServerConnectionError, ClientError, ServerTimeoutError, AsyncioTimeoutError}"
    and "images img_url k = Raises UnicodeError"
  shows "parse_teachers_page page_url pages = (Inr [], k + 1) \<and>
         download_and_save_image filename img_url images fs = (Inr fs, k + 1)"
proof
  have "page_loop (pages page_url) 0 = page_loop (pages page_url) k"
    using assms(1,2) by (intro page_loop_retries) auto
  also have "\<dots> = (Returned, k + 1)"
    using assms(1,3) by simp
  finally show "parse_teachers_page page_url pages = (Inr [], k + 1)"
    by (simp add: parse_teachers_page_def)
  have "image_loop (images img_url) 0 = image_loop (images img_url) k"
    using assms(1,4) by (intro image_loop_retries) auto
  also have "\<dots> = (Returned, k + 1)"
    using assms(1,5) by simp
  finally show "download_and_save_image filename img_url images fs = (Inr fs, k + 1)"
    by (simp add: download_and_save_image_def)
qed

text \<open>The first attempt fails with a retried error, the second with the decoding error.\<close>

theorem decoding_failure_aborts_witness:
  "parse_teachers_page (str ''u'')
     (\<lambda>u i. if i = 0 then Raises ClientError else if i = 1 then Raises UnicodeError else Returns [])
     = (Inr [], 2) \<and>
   download_and_save_image (str ''f'') (str ''v'')
     (\<lambda>u i. if i = 0 then Raises AsyncioTimeoutError else if i = 1 then Raises UnicodeError
             else Returns [1]) Map.empty
     = (Inr Map.empty, 2)"
  using decoding_failure_aborts [of 1
      "\<lambda>u i. if i = 0 then Raises ClientError else if i = 1 then Raises UnicodeError else Returns []"
      "str ''u''"
      "\<lambda>u i. if i = 0 then Raises AsyncioTimeoutError else if i = 1 then Raises UnicodeError
             else Returns [1]"
      "str ''v''" "str ''f''" Map.empty]
  by (simp add: MAX_RECONNECT_TRIES_def)

section \<open>The run of the orchestrator\<close>

lemma extend_subdomains_eq: "extend_subdomains divs acc = acc @ map href (concat divs)"
  by (induction divs arbitrary: acc) simp_all

lemma write_subdomains_eq:
  "write_subdomains ss written = written @ concat (map (\<lambda>s. s @ [10]) ss)"
  by (induction ss arbitrary: written) simp_all

lemma lines_of_line:
  "10 \<notin> set s \<Longrightarrow> lines_of (s @ 10 # rest) line = (line @ s) # lines_of rest []"
  by (induction s arbitrary: line) auto

lemma lines_of_concat:
  "(\<forall>s \<in> set ss. 10 \<notin> set s) \<Longrightarrow> lines_of (concat (map (\<lambda>s. s @ [10]) ss)) [] = ss"
  by (induction ss) (simp_all add: lines_of_line)

lemma created_downloads_append:
  "created_downloads (xs @ ys) = created_downloads xs @ created_downloads ys"
  by (induction xs rule: created_downloads.induct) simp_all

lemma awaited_downloads_append:
  "awaited_downloads (xs @ ys) = awaited_downloads xs @ awaited_downloads ys"
  by (induction xs rule: awaited_downloads.induct) simp_all

lemma created_downloads_awaited [simp]:
  "created_downloads (map (\<lambda>u. Awaited (f u)) us) = []"
  by (induction us) simp_all

lemma created_downloads_parse [simp]:
  "created_downloads (map (\<lambda>u. Created (Parse (f u))) us) = []"
  by (induction us) simp_all

lemma awaited_downloads_created [simp]:
  "awaited_downloads (map (\<lambda>u. Created (f u)) us) = []"
  by (induction us) simp_all

lemma awaited_downloads_parse [simp]:
  "awaited_downloads (map (\<lambda>u. Awaited (Parse (f u))) us) = []"
  by (induction us) simp_all

lemma await_tasks_parse:
  "(\<forall>(u, t) \<in> set tasks. \<forall>res. t = Inr res \<longrightarrow> image_tasks res = []) \<Longrightarrow>
   \<exists>us. (\<exists>e. await_tasks tasks teachers img_tasks evs
               = (Inl e, evs @ map (\<lambda>u. Awaited (Parse u)) us)) \<or>
        (\<exists>teachers'. await_tasks tasks teachers img_tasks evs
               = (Inr (teachers', img_tasks), evs @ map (\<lambda>u. Awaited (Parse u)) us))"
proof (induction tasks arbitrary: teachers evs)
  case Nil
  show ?case by (rule exI [of _ "[]"]) simp
next
  case (Cons p tasks)
  obtain url t where p: "p = (url, t)" by (cases p)
  show ?case
  proof (cases t)
    case (Inl e)
    show ?thesis by (rule exI [of _ "[]"]) (simp add: p Inl)
  next
    case (Inr res)
    with Cons.prems p have im: "image_tasks res = []" by simp
    from Cons.prems have rest: "\<forall>(u, t) \<in> set tasks. \<forall>res. t = Inr res \<longrightarrow> image_tasks res = []"
      by simp
    let ?T = "if res \<noteq> [] then teachers @ res else teachers"
    obtain us where us:
      "(\<exists>e. await_tasks tasks ?T img_tasks (evs @ [Awaited (Parse url)])
               = (Inl e, (evs @ [Awaited (Parse url)]) @ map (\<lambda>u. Awaited (Parse u)) us)) \<or>
       (\<exists>teachers'. await_tasks tasks ?T img_tasks (evs @ [Awaited (Parse url)])
               = (Inr (teachers', img_tasks),
                  (evs @ [Awaited (Parse url)]) @ map (\<lambda>u. Awaited (Parse u)) us))"
      using Cons.IH [OF rest, of ?T "evs @ [Awaited (Parse url)]"] by blast
    have step: "await_tasks (p # tasks) teachers img_tasks evs
        = await_tasks tasks ?T img_tasks (evs @ [Awaited (Parse url)])"
      by (simp add: p Inr im)
    show ?thesis
      by (rule exI [of _ "url # us"]) (use us step in auto)
  qed
qed

lemma parse_tasks_no_images:
  "\<forall>(u, t) \<in> set (map (\<lambda>(i, url). (url, fst (parse_teachers_page url (sessions i)))) ius).
      \<forall>res. t = Inr res \<longrightarrow> image_tasks res = []"
proof -
  have "image_tasks res = []" if "fst (parse_teachers_page url s) = Inr res" for url s res
    using parse_teachers_page_no_images [of url s res "snd (parse_teachers_page url s)"] that
    by (metis prod.collapse)
  then show ?thesis by auto
qed

text \<open>
  A run whose directory request succeeds writes \<open>subdomains.txt\<close>, creates one page
  task per subdomain and awaits them in order. No page yields an image task, so the run
  either ends with the exception of a page task, or writes \<open>teachers.json\<close> and ends.
\<close>

lemma main_returns:
  assumes "subds_response w = Returns divs"
  shows "\<exists>us.
    (\<exists>e. main w fs =
       \<lparr>raised = Some e,
        files = fs(str ''subdomains.txt'' \<mapsto> Text (concat (map (\<lambda>s. s @ [10]) (map href (concat divs))))),
        events = [Requested URL_SUBDS, Written (str ''subdomains.txt'')]
           @ map (\<lambda>s. Created (Parse (s @ URL_TEACHERS))) (map href (concat divs))
           @ map (\<lambda>u. Awaited (Parse u)) us\<rparr>) \<or>
    (\<exists>teachers. main w fs =
       \<lparr>raised = None,
        files = fs(str ''subdomains.txt'' \<mapsto> Text (concat (map (\<lambda>s. s @ [10]) (map href (concat divs)))),
                   str ''teachers.json'' \<mapsto> Text (json_dumps teachers)),
        events = [Requested URL_SUBDS, Written (str ''subdomains.txt'')]
           @ map (\<lambda>s. Created (Parse (s @ URL_TEACHERS))) (map href (concat divs))
           @ map (\<lambda>u. Awaited (Parse u)) us @ [Written (str ''teachers.json'')]\<rparr>)"
proof -
  let ?subs = "map href (concat divs)"
  let ?urls = "map (\<lambda>subdomain. subdomain @ URL_TEACHERS) ?subs"
  let ?tasks = "map (\<lambda>(i, url). (url, fst (parse_teachers_page url (teachers_session w i))))
                    (enumerate 0 ?urls)"
  let ?pre = "[Requested URL_SUBDS, Written (str ''subdomains.txt'')] @ map (\<lambda>url. Created (Parse url)) ?urls"
  obtain us where us:
    "(\<exists>e. await_tasks ?tasks [] [] ?pre = (Inl e, ?pre @ map (\<lambda>u. Awaited (Parse u)) us)) \<or>
     (\<exists>teachers'. await_tasks ?tasks [] [] ?pre
         = (Inr (teachers', []), ?pre @ map (\<lambda>u. Awaited (Parse u)) us))"
    using await_tasks_parse [OF parse_tasks_no_images, of "teachers_session w" "enumerate 0 ?urls" "[]" "[]" ?pre]
    by blast
  show ?thesis
    by (rule exI [of _ us])
      (use us assms in \<open>auto simp: main_def extend_subdomains_eq write_subdomains_eq Let_def comp_def\<close>)
qed

lemma file_names_neq: "str ''subdomains.txt'' \<noteq> str ''teachers.json''"
  by (simp add: str_def)

text \<open>
  C9. The request of the directory page is outside every \<open>try\<close>: when it raises, the
  exception leaves \<open>main\<close>, after this one request and before any file is written
  or any task is created.
\<close>

theorem directory_failure_propagates:
  "subds_response w = Raises err \<Longrightarrow>
   main w fs = \<lparr>raised = Some err, files = fs, events = [Requested URL_SUBDS]\<rparr>"
  by (simp add: main_def)

text \<open>A run whose directory request fails with a client error.\<close>

theorem directory_failure_propagates_witness:
  "main (newline_href_world\<lparr>subds_response := Raises ClientError\<rparr>) Map.empty
     = \<lparr>raised = Some ClientError, files = Map.empty, events = [Requested URL_SUBDS]\<rparr>"
  using directory_failure_propagates
    [of "newline_href_world\<lparr>subds_response := Raises ClientError\<rparr>" ClientError Map.empty]
  by simp

text \<open>The run on the first example network.\<close>

lemma main_jane_doe:
  \<open>main jane_doe_world Map.empty =
     \<lparr>raised = None,
      files = [str ''subdomains.txt'' \<mapsto> Text (str ''https://a.schools.by'' @ [10]),
               str ''teachers.json'' \<mapsto>
                 Text (str ''[{"name": null, "img_url": "https://a.schools.by/x.jpg"}]'')],
      events = [Requested URL_SUBDS, Written (str ''subdomains.txt''),
                Created (Parse (str ''https://a.schools.by/teachers'')),
                Awaited (Parse (str ''https://a.schools.by/teachers'')),
                Written (str ''teachers.json'')]\<rparr>\<close>
  using keys_neq
  by (simp add: main_def jane_doe_world_def Let_def enumerate_eq_zip href_def URL_TEACHERS_def
      parse_teachers_page_def MAX_RECONNECT_TRIES_def parse_card_eq attr_get_def dict_get_def
      json_dumps_def json_dict_def json_string_def json_value_def json_escape_def)
    (simp add: str_def json_escape_def)

text \<open>
  C5. The claim is that the objects of \<open>teachers.json\<close> have a string under \<open>name\<close>,
  and that the run on the first example network writes the array with the name
  \<open>Jane Doe\<close>. That run writes \<open>null\<close> under \<open>name\<close> (and creates no image task).
\<close>

theorem teachers_json_name_null:
  \<open>files (main jane_doe_world Map.empty) (str ''teachers.json'') =
     Some (Text (str ''[{"name": null, "img_url": "https://a.schools.by/x.jpg"}]'')) \<and>
   created_downloads (events (main jane_doe_world Map.empty)) = []\<close>
  by (simp add: main_jane_doe)

text \<open>No run creates or awaits an image task, since no record has a name.\<close>

lemma main_no_downloads:
  "created_downloads (events (main w fs)) = [] \<and> awaited_downloads (events (main w fs)) = []"
proof (cases "subds_response w")
  case (Raises err)
  then show ?thesis by (simp add: main_def)
next
  case (Returns divs)
  from main_returns [OF Returns, of fs] show ?thesis
    by (auto simp: created_downloads_append awaited_downloads_append comp_def)
qed

text \<open>The text of \<open>subdomains.txt\<close> after a run whose directory request succeeds.\<close>

lemma main_subdomains_txt:
  assumes "subds_response w = Returns divs"
  shows "files (main w fs) (str ''subdomains.txt'')
     = Some (Text (concat (map (\<lambda>a. href a @ [10]) (concat divs))))"
  using main_returns [OF assms, of fs] file_names_neq
  by (auto simp: comp_def)

text \<open>
  C7, as amended. For a directory page whose city blocks hold the anchors \<open>concat divs\<close>
  in document order, the run writes to \<open>subdomains.txt\<close> the \<open>href\<close> of every anchor
  (the empty string for an anchor without one) followed by a newline, in that order;
  when no \<open>href\<close> contains a newline, these are exactly as many newline-terminated
  lines as there are anchors, one per anchor, in document order.
\<close>

theorem subdomains_txt_lines:
  "subds_response w = Returns divs \<Longrightarrow>
   files (main w fs) (str ''subdomains.txt'')
     = Some (Text (concat (map (\<lambda>a. href a @ [10]) (concat divs)))) \<and>
   ((\<forall>a \<in> set (concat divs). 10 \<notin> set (href a)) \<longrightarrow>
      lines_of (concat (map (\<lambda>a. href a @ [10]) (concat divs))) [] = map href (concat divs) \<and>
      length (lines_of (concat (map (\<lambda>a. href a @ [10]) (concat divs))) [])
         = length (concat divs))"
proof (intro conjI impI)
  assume r: "subds_response w = Returns divs"
  then show "files (main w fs) (str ''subdomains.txt'')
     = Some (Text (concat (map (\<lambda>a. href a @ [10]) (concat divs))))"
    by (rule main_subdomains_txt)
  assume n: "\<forall>a \<in> set (concat divs). 10 \<notin> set (href a)"
  have "lines_of (concat (map (\<lambda>s. s @ [10]) (map href (concat divs)))) [] = map href (concat divs)"
    using n by (intro lines_of_concat) auto
  then show l: "lines_of (concat (map (\<lambda>a. href a @ [10]) (concat divs))) [] = map href (concat divs)"
    by (simp add: comp_def)
  show "length (lines_of (concat (map (\<lambda>a. href a @ [10]) (concat divs))) [])
         = length (concat divs)"
    by (simp add: l)
qed

text \<open>The directory page of the first example network: one anchor, one line.\<close>

theorem subdomains_txt_lines_witness:
  "subds_response jane_doe_world = Returns [[Some (str ''https://a.schools.by'')]] \<and>
   files (main jane_doe_world Map.empty) (str ''subdomains.txt'')
     = Some (Text (str ''https://a.schools.by'' @ [10])) \<and>
   lines_of (str ''https://a.schools.by'' @ [10]) [] = [str ''https://a.schools.by'']"
  using subdomains_txt_lines [of jane_doe_world "[[Some (str ''https://a.schools.by'')]]" Map.empty]
  by (simp add: jane_doe_world_def href_def) (simp add: str_def)

text \<open>
  C7 as stated fails when an \<open>href\<close> contains a newline: on the second example network
  the page has one anchor and the file has two lines.
\<close>

theorem subdomains_txt_newline_in_href:
  "subds_response newline_href_world = Returns [[Some [97, 10, 98]]] \<and>
   files (main newline_href_world Map.empty) (str ''subdomains.txt'')
     = Some (Text [97, 10, 98, 10]) \<and>
   lines_of [97, 10, 98, 10] [] = [[97], [98]] \<and>
   length (lines_of [97, 10, 98, 10] []) \<noteq> length (concat [[Some [97, 10, 98 :: nat]]])"
  using main_subdomains_txt [of newline_href_world "[[Some [97, 10, 98]]]" Map.empty]
  by (simp add: newline_href_world_def href_def)

section \<open>Further properties\<close>

text \<open>
  The expression whose value \<open>make_name_valid\<close> drops replaces nothing: no code point
  is a key of the table.
\<close>

lemma translate_table_keeps: "translate TRANSLATION_TABLE s = s"
  by (induction s) (simp_all add: translate_def TRANSLATION_TABLE_def)

text \<open>
  The records of a page that was fetched: one per card with a name element or a photo
  image element, in document order (\<open>parse_card_eq\<close> gives the keys and values).
\<close>

lemma parse_card_empty:
  "parse_card c = [] \<longleftrightarrow> user_type_3 c = None \<and> photo_img c = None"
  by (simp add: parse_card_eq split: option.splits)

lemma parse_teachers_page_records:
  "page_loop (session url) 0 = (Broke cards, n) \<Longrightarrow>
   parse_teachers_page url session
     = (Inr (filter (\<lambda>teacher. teacher \<noteq> []) (map parse_card cards)), n)"
  by (simp add: parse_teachers_page_def parse_cards_acc)

text \<open>
  The retries of the errors that each loop catches: two such failures and a success
  give the result of the third attempt, three such failures give the empty list or the
  unchanged files, with three requests made in every case.
\<close>

lemma page_fetch_third_attempt:
  assumes "\<forall>i<2. \<exists>e. session url i = Raises e \<and>
              e \<in> {ServerConnectionError, ClientError, ServerTimeoutError}"
    and "session url 2 = Returns html"
  shows "parse_teachers_page url session = (Inr (parse_cards html []), 3)"
proof -
  have "page_loop (session url) 0 = page_loop (session url) 2"
    using assms(1) by (intro page_loop_retries) (auto simp: MAX_RECONNECT_TRIES_def)
  also have "\<dots> = (Broke html, 3)"
    using assms(2) by (simp add: MAX_RECONNECT_TRIES_def)
  finally show ?thesis
    by (simp add: parse_teachers_page_def)
qed

lemma page_fetch_exhausted:
  assumes "\<forall>i<3. \<exists>e. session url i = Raises e \<and>
              e \<in> {ServerConnectionError, ClientError, ServerTimeoutError}"
  shows "parse_teachers_page url session = (Inr [], 3)"
proof -
  have "page_loop (session url) 0 = page_loop (session url) 3"
    using assms by (intro page_loop_retries) (auto simp: MAX_RECONNECT_TRIES_def)
  also have "\<dots> = (Returned, 3)"
    by (simp add: MAX_RECONNECT_TRIES_def)
  finally show ?thesis
    by (simp add: parse_teachers_page_def)
qed

lemma image_fetch_third_attempt:
  assumes "\<forall>i<2. \<exists>e. session img_url i = Raises e \<and>
              e \<in> {ServerConnectionError, ClientError, ServerTimeoutError, AsyncioTimeoutError}"
    and "session img_url 2 = Returns raw"
  shows "download_and_save_image filename img_url session fs
     = (Inr (fs(os_path_join SUBFOLDER (filename @ str ''.jpg'') \<mapsto> Bytes raw)), 3)"
proof -
  have "image_loop (session img_url) 0 = image_loop (session img_url) 2"
    using assms(1) by (intro image_loop_retries) (auto simp: MAX_RECONNECT_TRIES_def)
  also have "\<dots> = (Broke raw, 3)"
    using assms(2) by (simp add: MAX_RECONNECT_TRIES_def)
  finally show ?thesis
    by (simp add: download_and_save_image_def)
qed

lemma image_fetch_exhausted:
  assumes "\<forall>i<3. \<exists>e. session img_url i = Raises e \<and>
              e \<in> {ServerConnectionError, ClientError, ServerTimeoutError, AsyncioTimeoutError}"
  shows "download_and_save_image filename img_url session fs = (Inr fs, 3)"
proof -
  have "image_loop (session img_url) 0 = image_loop (session img_url) 3"
    using assms by (intro image_loop_retries) (auto simp: MAX_RECONNECT_TRIES_def)
  also have "\<dots> = (Returned, 3)"
    by (simp add: MAX_RECONNECT_TRIES_def)
  finally show ?thesis
    by (simp add: download_and_save_image_def)
qed

text \<open>
  The loop over the page tasks creates the image task of a record with a name and an
  image URL as soon as the page task of the record has been awaited, which is before
  \<open>main\<close> writes \<open>teachers.json\<close>.
\<close>

lemma await_tasks_named_record:
  "await_tasks [(url, Inr [[(str ''name'', PyStr name), (str ''img_url'', PyStr img_url)]])]
     [] [] evs
   = (Inr ([[(str ''name'', PyStr name), (str ''img_url'', PyStr img_url)]], [(name, img_url)]),
      evs @ [Awaited (Parse url), Created (Download name img_url)])"
  using keys_neq by (simp add: dict_get_def)

section \<open>The image tasks of the orchestrator\<close>

text \<open>\<open>main\<close> runs \<open>teachers_stage\<close> on its page tasks.\<close>

lemma main_teachers_stage:
  "subds_response w = Returns divs \<Longrightarrow>
   main w fs =
     teachers_stage
       (map (\<lambda>(i, url). (url, fst (parse_teachers_page url (teachers_session w i))))
          (enumerate 0 (map (\<lambda>subdomain. subdomain @ URL_TEACHERS) (extend_subdomains divs []))))
       (images_session w)
       (fs(str ''subdomains.txt'' \<mapsto> Text (write_subdomains (extend_subdomains divs []) [])))
       ([Requested URL_SUBDS, Written (str ''subdomains.txt'')]
          @ map (\<lambda>url. Created (Parse url))
              (map (\<lambda>subdomain. subdomain @ URL_TEACHERS) (extend_subdomains divs [])))"
  by (simp add: main_def teachers_stage_def Let_def)



lemma created_downloads_created [simp]:
  "created_downloads (map (\<lambda>(name, img_url). Created (Download name img_url)) its) = its"
  by (induction its) auto

lemma awaited_downloads_awaited [simp]:
  "awaited_downloads (map (\<lambda>(name, img_url). Awaited (Download name img_url)) its) = its"
  by (induction its) auto

lemma awaited_downloads_created_pairs [simp]:
  "awaited_downloads (map (\<lambda>(name, img_url). Created (Download name img_url)) its) = []"
  by (induction its) auto

lemma created_downloads_awaited_pairs [simp]:
  "created_downloads (map (\<lambda>(name, img_url). Awaited (Download name img_url)) its) = []"
  by (induction its) auto



lemma collecting_events_awaited [simp]: "awaited_downloads (collecting_events tasks) = []"
  by (induction tasks rule: collecting_events.induct) (simp_all add: awaited_downloads_append)




lemma awaiting_events_created [simp]: "created_downloads (awaiting_events its j sessions fs) = []"
  by (induction its j sessions fs rule: awaiting_events.induct) (simp_all split: sum.splits)







end
